theory Spec2Isabelle
  imports Main "HOL-Library.Word"
begin

text \<open>
  A model of \<open>hacks/aws-s3-art-srv-enterprise-signed-cookie/generate_cookie.py\<close>: the class
  \<open>CloudFrontUtil\<close>, which issues signed URLs and signed cookies for a content delivery
  network. The script is a thin layer over two libraries, botocore and rsa. The model of
  the script takes the library calls as parameters; a second part describes what the
  library calls compute, and the claims about the script's own code are proved for every
  library.
\<close>

section \<open>Python values used by generate_cookie.py\<close>

text \<open>
  A Python \<open>str\<close> is a sequence of Unicode code points and a \<open>bytes\<close> object a
  sequence of octets. Code points are natural numbers, octets are 8-bit words. A Python
  \<open>str\<close> only holds code points below \<open>0x110000\<close>; \<open>is_str\<close> says so of a list.
\<close>

type_synonym str = "nat list"
type_synonym byte = "8 word"
type_synonym bytes = "byte list"


text \<open>String and bytes literals of the script, written as Isabelle strings.\<close>

definition py_str :: "string \<Rightarrow> str" where
  "py_str s = map of_char s"

definition py_bytes :: "string \<Rightarrow> bytes" where
  "py_bytes s = map of_char s"

text \<open>
  Exceptions. \<open>UnicodeEncodeError\<close>, \<open>UnicodeDecodeError\<close> and \<open>ValueError\<close> are the
  built-in exceptions that the modelled code can raise itself; \<open>Raised e\<close> is an exception
  \<open>e\<close> raised inside a library primitive that is left abstract.
\<close>

datatype 'e exn = UnicodeEncodeError | UnicodeDecodeError | ValueError | Raised 'e

text \<open>
  \<open>generate_signed_cookies\<close> is annotated \<open>-> str\<close> and returns a dict literal; the
  result type keeps the two shapes apart.
\<close>

datatype py_value = PyStr str | PyDict "(str \<times> str) list"

subsection \<open>\<open>str.encode('utf8')\<close>\<close>

definition utf8_encode_char :: "nat \<Rightarrow> bytes option" where
  "utf8_encode_char c =
     (if c < 0x80 then Some [of_nat c]
      else if c < 0x800 then Some [of_nat (0xC0 + c div 64), of_nat (0x80 + c mod 64)]
      else if 0xD800 \<le> c \<and> c < 0xE000 then None
      else if c < 0x10000 then
        Some [of_nat (0xE0 + c div 4096), of_nat (0x80 + (c div 64) mod 64),
              of_nat (0x80 + c mod 64)]
      else if c < 0x110000 then
        Some [of_nat (0xF0 + c div 262144), of_nat (0x80 + (c div 4096) mod 64),
              of_nat (0x80 + (c div 64) mod 64), of_nat (0x80 + c mod 64)]
      else None)"

fun str_encode_utf8 :: "str \<Rightarrow> 'e exn + bytes" where
  "str_encode_utf8 [] = Inr []"
| "str_encode_utf8 (c # cs) =
     (case utf8_encode_char c of
        None \<Rightarrow> Inl UnicodeEncodeError
      | Some bs \<Rightarrow>
          (case str_encode_utf8 cs of
             Inl e \<Rightarrow> Inl e
           | Inr rest \<Rightarrow> Inr (bs @ rest)))"

subsection \<open>\<open>bytes.decode('utf8')\<close>\<close>

definition continuation :: "byte \<Rightarrow> bool" where
  "continuation b = (0x80 \<le> unat b \<and> unat b < 0xC0)"

definition low6 :: "byte \<Rightarrow> nat" where
  "low6 b = unat b - 0x80"

fun bytes_decode_utf8 :: "bytes \<Rightarrow> 'e exn + str" where
  "bytes_decode_utf8 [] = Inr []"
| "bytes_decode_utf8 (b # bs) =
     (if unat b < 0x80 then
        (case bytes_decode_utf8 bs of
           Inl e \<Rightarrow> Inl e
         | Inr cs \<Rightarrow> Inr (unat b # cs))
      else if 0xC2 \<le> unat b \<and> unat b < 0xE0 then
        (case bs of
           b1 # r \<Rightarrow>
             if continuation b1 then
               (case bytes_decode_utf8 r of
                  Inl e \<Rightarrow> Inl e
                | Inr cs \<Rightarrow> Inr (((unat b - 0xC0) * 64 + low6 b1) # cs))
             else Inl UnicodeDecodeError
         | _ \<Rightarrow> Inl UnicodeDecodeError)
      else if 0xE0 \<le> unat b \<and> unat b < 0xF0 then
        (case bs of
           b1 # b2 # r \<Rightarrow>
             if continuation b1 \<and> continuation b2
                \<and> 0x800 \<le> (unat b - 0xE0) * 4096 + low6 b1 * 64 + low6 b2
                \<and> \<not> (0xD800 \<le> (unat b - 0xE0) * 4096 + low6 b1 * 64 + low6 b2
                      \<and> (unat b - 0xE0) * 4096 + low6 b1 * 64 + low6 b2 < 0xE000)
             then
               (case bytes_decode_utf8 r of
                  Inl e \<Rightarrow> Inl e
                | Inr cs \<Rightarrow> Inr (((unat b - 0xE0) * 4096 + low6 b1 * 64 + low6 b2) # cs))
             else Inl UnicodeDecodeError
         | _ \<Rightarrow> Inl UnicodeDecodeError)
      else if 0xF0 \<le> unat b \<and> unat b < 0xF5 then
        (case bs of
           b1 # b2 # b3 # r \<Rightarrow>
             if continuation b1 \<and> continuation b2 \<and> continuation b3
                \<and> 0x10000 \<le> (unat b - 0xF0) * 262144 + low6 b1 * 4096 + low6 b2 * 64 + low6 b3
                \<and> (unat b - 0xF0) * 262144 + low6 b1 * 4096 + low6 b2 * 64 + low6 b3 < 0x110000
             then
               (case bytes_decode_utf8 r of
                  Inl e \<Rightarrow> Inl e
                | Inr cs \<Rightarrow>
                    Inr (((unat b - 0xF0) * 262144 + low6 b1 * 4096 + low6 b2 * 64 + low6 b3)
                         # cs))
             else Inl UnicodeDecodeError
         | _ \<Rightarrow> Inl UnicodeDecodeError)
      else Inl UnicodeDecodeError)"

section \<open>The libraries that generate_cookie.py calls\<close>

text \<open>
  The script imports \<open>CloudFrontSigner\<close> from botocore and \<open>rsa\<close>; neither library is
  part of the repository. The model of the script takes them as parameters:
  \<^item> \<open>rsa_sign message priv_key hash_method\<close> is \<open>rsa.sign\<close>;
  \<^item> \<open>CloudFrontSigner key_id rsa_signer\<close> is the constructor of botocore's signer
    object, whose methods \<open>build_policy\<close>, \<open>_url_b64encode\<close> and
    \<open>generate_presigned_url\<close> are the fields of the object.
  The type \<open>'k\<close> is that of a parsed private key, \<open>'t\<close> that of a \<open>datetime\<close>.
\<close>

record ('t, 'e) cloudfront_signer =
  build_policy :: "str \<Rightarrow> 't \<Rightarrow> 'e exn + str"
  url_b64encode :: "bytes \<Rightarrow> 'e exn + bytes"
  cf_generate_presigned_url :: "str \<Rightarrow> 't option \<Rightarrow> str option \<Rightarrow> 'e exn + str"

record ('k, 't, 'e) library =
  rsa_sign :: "bytes \<Rightarrow> 'k \<Rightarrow> str \<Rightarrow> 'e exn + bytes"
  CloudFrontSigner :: "str \<Rightarrow> (bytes \<Rightarrow> 'e exn + bytes) \<Rightarrow> ('t, 'e) cloudfront_signer"

section \<open>class CloudFrontUtil\<close>

record ('t, 'e) CloudFrontUtil =
  key_id :: str
  rsa_signer :: "bytes \<Rightarrow> 'e exn + bytes"
  cf_signer :: "('t, 'e) cloudfront_signer"

text \<open>
  \<open>__init__\<close>, after the key file has been read and parsed into \<open>priv_key\<close>:
  \<open>rsa_signer\<close> is \<open>functools.partial(rsa.sign, priv_key=priv_key, hash_method='SHA-1')\<close>
  and \<open>cf_signer\<close> is \<open>CloudFrontSigner(key_id, self.rsa_signer)\<close>.
\<close>

definition init :: "('k, 't, 'e) library \<Rightarrow> 'k \<Rightarrow> str \<Rightarrow> ('t, 'e) CloudFrontUtil" where
  "init lib priv_key kid =
     \<lparr>key_id = kid,
      rsa_signer = (\<lambda>message. rsa_sign lib message priv_key (py_str ''SHA-1'')),
      cf_signer =
        CloudFrontSigner lib kid (\<lambda>message. rsa_sign lib message priv_key (py_str ''SHA-1''))\<rparr>"

definition generate_presigned_url ::
  "('t, 'e) CloudFrontUtil \<Rightarrow> str \<Rightarrow> 't \<Rightarrow> 'e exn + str" where
  "generate_presigned_url self url expire_at =
     cf_generate_presigned_url (cf_signer self) url (Some expire_at) None"

definition generate_signed_cookies ::
  "('t, 'e) CloudFrontUtil \<Rightarrow> str \<Rightarrow> 't \<Rightarrow> 'e exn + py_value" where
  "generate_signed_cookies self url expire_at =
     (case build_policy (cf_signer self) url expire_at of
        Inl e \<Rightarrow> Inl e
      | Inr policy_str \<Rightarrow>
     (case str_encode_utf8 policy_str of
        Inl e \<Rightarrow> Inl e
      | Inr policy \<Rightarrow>
     (case url_b64encode (cf_signer self) policy of
        Inl e \<Rightarrow> Inl e
      | Inr policy_b64 \<Rightarrow>
     (case bytes_decode_utf8 policy_b64 of
        Inl e \<Rightarrow> Inl e
      | Inr policy_64 \<Rightarrow>
     (case rsa_signer self policy of
        Inl e \<Rightarrow> Inl e
      | Inr signature \<Rightarrow>
     (case url_b64encode (cf_signer self) signature of
        Inl e \<Rightarrow> Inl e
      | Inr signature_b64 \<Rightarrow>
     (case bytes_decode_utf8 signature_b64 of
        Inl e \<Rightarrow> Inl e
      | Inr signature_64 \<Rightarrow>
          Inr (PyDict
            [(py_str ''CloudFront-Policy'', policy_64),
             (py_str ''CloudFront-Signature'', signature_64),
             (py_str ''CloudFront-Key-Pair-Id'', key_id self)]))))))))"

text \<open>
  Two expressions of the method have a name of their own in what follows: the right-hand
  side of line 42, which yields the policy octets, and the expression that lines 43 and 46
  apply to the policy and to the signature, which yields a cookie value.
\<close>

definition policy_step :: "('t, 'e) CloudFrontUtil \<Rightarrow> str \<Rightarrow> 't \<Rightarrow> 'e exn + bytes" where
  "policy_step self url expire_at =
     (case build_policy (cf_signer self) url expire_at of
        Inl e \<Rightarrow> Inl e
      | Inr policy_str \<Rightarrow> str_encode_utf8 policy_str)"

definition encode_step :: "('t, 'e) CloudFrontUtil \<Rightarrow> bytes \<Rightarrow> 'e exn + str" where
  "encode_step self data =
     (case url_b64encode (cf_signer self) data of
        Inl e \<Rightarrow> Inl e
      | Inr data_b64 \<Rightarrow> bytes_decode_utf8 data_b64)"

section \<open>The call sequence of \<open>generate_signed_cookies\<close>\<close>




section \<open>The library code behind the calls\<close>

subsection \<open>The canonical encoder\<close>

text \<open>
  Modelled from the spec: \<open>CloudFrontSigner._url_b64encode\<close> belongs to botocore and is
  only called by the script (lines 43 and 46). Section 4.1 of the specification gives its
  result: the standard base64 encoding of the data, padded with \<open>=\<close>, in which
  afterwards \<open>+\<close> is replaced by \<open>-\<close>, \<open>=\<close> by \<open>_\<close> and \<open>/\<close> by \<open>~\<close>.
\<close>

definition b64_alphabet :: bytes where
  "b64_alphabet =
     py_bytes ''ABCDEFGHIJKLMNOPQRSTUVWXYZabcdefghijklmnopqrstuvwxyz0123456789+/''"

text \<open>The character of a sextet; every caller passes a value below 64.\<close>

definition b64_char :: "nat \<Rightarrow> byte" where
  "b64_char n = b64_alphabet ! (n mod 64)"

fun b64encode :: "bytes \<Rightarrow> bytes" where
  "b64encode [] = []"
| "b64encode [a] =
     [b64_char (unat a div 4), b64_char (unat a mod 4 * 16), 0x3D, 0x3D]"
| "b64encode [a, b] =
     [b64_char (unat a div 4), b64_char (unat a mod 4 * 16 + unat b div 16),
      b64_char (unat b mod 16 * 4), 0x3D]"
| "b64encode (a # b # c # rest) =
     [b64_char (unat a div 4), b64_char (unat a mod 4 * 16 + unat b div 16),
      b64_char (unat b mod 16 * 4 + unat c div 64), b64_char (unat c mod 64)]
     @ b64encode rest"

definition bytes_replace :: "byte \<Rightarrow> byte \<Rightarrow> bytes \<Rightarrow> bytes" where
  "bytes_replace old new data = map (\<lambda>b. if b = old then new else b) data"

definition Encode :: "bytes \<Rightarrow> bytes" where
  "Encode data =
     bytes_replace 0x2F 0x7E (bytes_replace 0x3D 0x5F (bytes_replace 0x2B 0x2D
       (b64encode data)))"

text \<open>
  The reading direction, as the verifying edge applies it to a cookie value. The script
  never decodes; the decoder serves to state that the encoding loses nothing.
\<close>

definition b64_index :: "byte \<Rightarrow> nat" where
  "b64_index c = length (takeWhile (\<lambda>x. x \<noteq> c) b64_alphabet)"

fun b64decode :: "bytes \<Rightarrow> bytes" where
  "b64decode (c0 # c1 # c2 # c3 # rest) =
     (if c2 = 0x3D then
        [of_nat (b64_index c0 * 4 + b64_index c1 div 16)]
      else if c3 = 0x3D then
        [of_nat (b64_index c0 * 4 + b64_index c1 div 16),
         of_nat (b64_index c1 mod 16 * 16 + b64_index c2 div 4)]
      else
        [of_nat (b64_index c0 * 4 + b64_index c1 div 16),
         of_nat (b64_index c1 mod 16 * 16 + b64_index c2 div 4),
         of_nat (b64_index c2 mod 4 * 64 + b64_index c3)]
        @ b64decode rest)"
| "b64decode cs = []"

definition Decode :: "bytes \<Rightarrow> bytes" where
  "Decode data =
     b64decode (bytes_replace 0x2D 0x2B (bytes_replace 0x5F 0x3D (bytes_replace 0x7E 0x2F
       data)))"

subsection \<open>The policy builder\<close>

text \<open>
  Python's \<open>str(n)\<close> for an integer, and the JSON rendering of a string with every
  character outside printable ASCII escaped.
\<close>

fun dec_digits :: "nat \<Rightarrow> str" where
  "dec_digits n = (if n < 10 then [48 + n] else dec_digits (n div 10) @ [48 + n mod 10])"

definition int_str :: "int \<Rightarrow> str" where
  "int_str i = (if i < 0 then 45 # dec_digits (nat (- i)) else dec_digits (nat i))"

definition hex_digit :: "nat \<Rightarrow> nat" where
  "hex_digit d = (if d < 10 then 48 + d else 87 + d)"

definition u_escape :: "nat \<Rightarrow> str" where
  "u_escape n =
     [92, 117, hex_digit (n div 4096 mod 16), hex_digit (n div 256 mod 16),
      hex_digit (n div 16 mod 16), hex_digit (n mod 16)]"

definition json_escape :: "nat \<Rightarrow> str" where
  "json_escape c =
     (if c = 0x22 then [92, 0x22]
      else if c = 0x5C then [92, 92]
      else if c = 0x08 then [92, 98]
      else if c = 0x0C then [92, 102]
      else if c = 0x0A then [92, 110]
      else if c = 0x0D then [92, 114]
      else if c = 0x09 then [92, 116]
      else if 0x20 \<le> c \<and> c \<le> 0x7E then [c]
      else if c < 0x10000 then u_escape c
      else u_escape (0xD800 + (c - 0x10000) div 1024 mod 1024)
           @ u_escape (0xDC00 + (c - 0x10000) mod 1024))"

definition json_string :: "str \<Rightarrow> str" where
  "json_string s = [0x22] @ concat (map json_escape s) @ [0x22]"

text \<open>
  Modelled from the spec: \<open>CloudFrontSigner.build_policy\<close> belongs to botocore and is only
  called by the script (line 42). Section 4.2 of the specification describes the result:
  one statement that holds the resource and one date-less-than condition whose value is the
  expiry in whole seconds since the epoch, without fractional part or leading zeros. The
  field names and the compact JSON layout are those of the edge network's policy format.
  Two things are not visible from the script and stay parameters:
  \<^item> \<open>epoch_time\<close>, the whole epoch seconds of a \<open>datetime\<close>;
  \<^item> \<open>resource_error\<close>, the rejection of a resource: \<open>resource_error r = Some e\<close> when
    the builder raises \<open>e\<close> for the resource \<open>r\<close> (section 4.2 names empty and
    malformed resources), \<open>None\<close> when it accepts \<open>r\<close>.
\<close>

record ('t, 'e) policy_builder =
  epoch_time :: "'t \<Rightarrow> int"
  resource_error :: "str \<Rightarrow> 'e option"

definition BuildPolicy :: "('t, 'e) policy_builder \<Rightarrow> str \<Rightarrow> 't \<Rightarrow> 'e exn + str" where
  \<open>BuildPolicy pb resource date_less_than =
     (case resource_error pb resource of
        Some e \<Rightarrow> Inl (Raised e)
      | None \<Rightarrow>
          Inr (py_str ''{"Statement":[{"Resource":'' @ json_string resource
               @ py_str '',"Condition":{"DateLessThan":{"AWS:EpochTime":''
               @ int_str (epoch_time pb date_less_than) @ py_str ''}}}]}''))\<close>

subsection \<open>The signer\<close>

text \<open>
  Modelled from the spec: \<open>rsa.sign\<close> belongs to the rsa library and is only called by
  the script, through \<open>functools.partial\<close> (lines 31 to 33). Section 4.3 of the
  specification describes a hash-then-sign scheme: the message is hashed to a 160-bit
  digest, and the key's deterministic padding scheme and private-key operation are applied
  to the digest. The digest function and the padded private-key operation are primitives
  of the library; so is whatever the library does under another hash method.
\<close>

record ('k, 'e) rsa_primitives =
  sha1 :: "bytes \<Rightarrow> 160 word"
  pkcs1_v15_sign :: "'k \<Rightarrow> 160 word \<Rightarrow> 'e exn + bytes"
  sign_other_hash :: "bytes \<Rightarrow> 'k \<Rightarrow> str \<Rightarrow> 'e exn + bytes"

definition Sign ::
  "('k, 'e) rsa_primitives \<Rightarrow> bytes \<Rightarrow> 'k \<Rightarrow> str \<Rightarrow> 'e exn + bytes" where
  "Sign prims message priv_key hash_method =
     (if hash_method = py_str ''SHA-1''
      then pkcs1_v15_sign prims priv_key (sha1 prims message)
      else sign_other_hash prims message priv_key hash_method)"

subsection \<open>The signed URL\<close>

text \<open>
  Modelled from the spec: \<open>CloudFrontSigner.generate_presigned_url\<close> belongs to botocore
  and is only called by the script (line 39). Sections 4.4 and 6 of the specification
  describe the result: the policy is built and signed, and query parameters are appended to
  the URL: the encoded policy, or in the canned form the expiry timestamp in its place, then
  the encoded signature and the raw key identifier. The method takes either a date (canned
  form) or a policy (custom form) and rejects a call with both or neither.
\<close>

fun join :: "str \<Rightarrow> str list \<Rightarrow> str" where
  "join sep [] = []"
| "join sep [x] = x"
| "join sep (x # y # ys) = x @ sep @ join sep (y # ys)"

definition build_url :: "str \<Rightarrow> str list \<Rightarrow> str" where
  "build_url base_url extra_params =
     base_url @ (if 0x3F \<in> set base_url then [0x26] else [0x3F])
     @ join [0x26] extra_params"

definition sign_params ::
  "str \<Rightarrow> (bytes \<Rightarrow> 'e exn + bytes) \<Rightarrow> bytes \<Rightarrow> 'e exn + str list" where
  "sign_params kid signer policy =
     (case signer policy of
        Inl e \<Rightarrow> Inl e
      | Inr signature \<Rightarrow>
          (case bytes_decode_utf8 (Encode signature) of
             Inl e \<Rightarrow> Inl e
           | Inr signature_64 \<Rightarrow>
               Inr [py_str ''Signature='' @ signature_64, py_str ''Key-Pair-Id='' @ kid]))"

definition IssueSignedURL ::
  "('t, 'e) policy_builder \<Rightarrow> str \<Rightarrow> (bytes \<Rightarrow> 'e exn + bytes) \<Rightarrow>
   str \<Rightarrow> 't option \<Rightarrow> str option \<Rightarrow> 'e exn + str" where
  "IssueSignedURL pb kid signer url date_less_than policy =
     (case (date_less_than, policy) of
        (Some d, Some p) \<Rightarrow> Inl ValueError
      | (None, None) \<Rightarrow> Inl ValueError
      | (Some d, None) \<Rightarrow>
          (case BuildPolicy pb url d of
             Inl e \<Rightarrow> Inl e
           | Inr canned \<Rightarrow>
          (case str_encode_utf8 canned of
             Inl e \<Rightarrow> Inl e
           | Inr policy_bytes \<Rightarrow>
          (case sign_params kid signer policy_bytes of
             Inl e \<Rightarrow> Inl e
           | Inr params \<Rightarrow>
               Inr (build_url url
                      ((py_str ''Expires='' @ int_str (epoch_time pb d)) # params)))))
      | (None, Some p) \<Rightarrow>
          (case str_encode_utf8 p of
             Inl e \<Rightarrow> Inl e
           | Inr policy_bytes \<Rightarrow>
          (case bytes_decode_utf8 (Encode policy_bytes) of
             Inl e \<Rightarrow> Inl e
           | Inr policy_64 \<Rightarrow>
          (case sign_params kid signer policy_bytes of
             Inl e \<Rightarrow> Inl e
           | Inr params \<Rightarrow>
               Inr (build_url url ((py_str ''Policy='' @ policy_64) # params))))))"

subsection \<open>The two libraries together\<close>

definition cloudfront_library ::
  "('t, 'e) policy_builder \<Rightarrow> ('k, 'e) rsa_primitives \<Rightarrow> ('k, 't, 'e) library" where
  "cloudfront_library pb prims =
     \<lparr>rsa_sign = Sign prims,
      CloudFrontSigner = (\<lambda>kid signer.
        \<lparr>build_policy = BuildPolicy pb,
         url_b64encode = (\<lambda>data. Inr (Encode data)),
         cf_generate_presigned_url = IssueSignedURL pb kid signer\<rparr>)\<rparr>"

section \<open>A small instance to run the model on\<close>

text \<open>
  The error kinds that the specification names, a clock whose instants are whole seconds
  and microseconds, and stand-ins for the parts that the model leaves open.
  \<^item> The builder rejects no resource: like botocore's \<open>build_policy\<close>, it writes the
    resource into the statement without looking at it.
  \<^item> The digest is the big-endian value of the message, cut to 160 bits.
  \<^item> The private-key operation writes the digest out in twenty octets. It rejects a short
    key (here: one below 368 bits, that is 46 octets), as the rsa library does when the key
    leaves no room for the padded SHA-1 digest (35 octets and at least 11 of padding).
\<close>

datatype error = InvalidResource | InvalidKey | SigningFailure

definition test_builder :: "(int \<times> nat, error) policy_builder" where
  "test_builder =
     \<lparr>epoch_time = fst,
      resource_error = (\<lambda>r. None)\<rparr>"

definition digest_octets :: "160 word \<Rightarrow> bytes" where
  "digest_octets d = map (\<lambda>i. ucast (drop_bit (8 * i) d)) (rev [0..<20])"

definition test_primitives :: "(nat, error) rsa_primitives" where
  "test_primitives =
     \<lparr>sha1 = (\<lambda>message. word_rcat message),
      pkcs1_v15_sign = (\<lambda>key_bits digest.
        if key_bits < 368 then Inl (Raised InvalidKey) else Inr (digest_octets digest)),
      sign_other_hash = (\<lambda>message key_bits hash_method. Inl ValueError)\<rparr>"

definition test_library :: "(nat, int \<times> nat, error) library" where
  "test_library = cloudfront_library test_builder test_primitives"

section \<open>Facts about the model\<close>

subsection \<open>The method as a sequence of four steps\<close>

lemma generate_signed_cookies_steps:
  "generate_signed_cookies self url expire_at =
     (case policy_step self url expire_at of
        Inl e \<Rightarrow> Inl e
      | Inr policy \<Rightarrow>
     (case encode_step self policy of
        Inl e \<Rightarrow> Inl e
      | Inr policy_64 \<Rightarrow>
     (case rsa_signer self policy of
        Inl e \<Rightarrow> Inl e
      | Inr signature \<Rightarrow>
     (case encode_step self signature of
        Inl e \<Rightarrow> Inl e
      | Inr signature_64 \<Rightarrow>
          Inr (PyDict
            [(py_str ''CloudFront-Policy'', policy_64),
             (py_str ''CloudFront-Signature'', signature_64),
             (py_str ''CloudFront-Key-Pair-Id'', key_id self)])))))"
  by (simp add: generate_signed_cookies_def policy_step_def encode_step_def split: sum.splits)

lemma cookie_names_distinct:
  "distinct [py_str ''CloudFront-Policy'', py_str ''CloudFront-Signature'',
             py_str ''CloudFront-Key-Pair-Id'']"
  by (simp add: py_str_def)



subsection \<open>UTF-8\<close>

text \<open>The two conversions on a text of one to four octets a character, and on ill-formed input.\<close>

lemma utf8_examples:
  "(str_encode_utf8 [0x41, 0xE9, 0x20AC, 0x1F600] :: unit exn + bytes) =
     Inr [0x41, 0xC3, 0xA9, 0xE2, 0x82, 0xAC, 0xF0, 0x9F, 0x98, 0x80]"
  "(bytes_decode_utf8 [0x41, 0xC3, 0xA9, 0xE2, 0x82, 0xAC, 0xF0, 0x9F, 0x98, 0x80]
      :: unit exn + str) = Inr [0x41, 0xE9, 0x20AC, 0x1F600]"
  "(str_encode_utf8 [0xD800] :: unit exn + bytes) = Inl UnicodeEncodeError"
  "(bytes_decode_utf8 [0xC0, 0x80] :: unit exn + str) = Inl UnicodeDecodeError"
  "(bytes_decode_utf8 [0xED, 0xA0, 0x80] :: unit exn + str) = Inl UnicodeDecodeError"
  "(bytes_decode_utf8 [0xE2, 0x82] :: unit exn + str) = Inl UnicodeDecodeError"
  by (simp_all add: utf8_encode_char_def continuation_def low6_def)

lemma bytes_decode_utf8_ascii:
  "\<forall>b \<in> set bs. unat b < 0x80 \<Longrightarrow> bytes_decode_utf8 bs = Inr (map unat bs)"
  by (induction bs) simp_all

lemma str_encode_utf8_ascii:
  "\<forall>c \<in> set s. c < 0x80 \<Longrightarrow> str_encode_utf8 s = Inr (map of_nat s)"
  by (induction s) (simp_all add: utf8_encode_char_def)




subsection \<open>Base64\<close>

text \<open>The test vectors of RFC 4648.\<close>

lemma b64encode_rfc4648:
  "b64encode (py_bytes '''') = py_bytes ''''"
  "b64encode (py_bytes ''f'') = py_bytes ''Zg==''"
  "b64encode (py_bytes ''fo'') = py_bytes ''Zm8=''"
  "b64encode (py_bytes ''foo'') = py_bytes ''Zm9v''"
  "b64encode (py_bytes ''foob'') = py_bytes ''Zm9vYg==''"
  "b64encode (py_bytes ''fooba'') = py_bytes ''Zm9vYmE=''"
  "b64encode (py_bytes ''foobar'') = py_bytes ''Zm9vYmFy''"
  by (simp_all add: py_bytes_def b64_char_def b64_alphabet_def)

lemma length_b64_alphabet: "length b64_alphabet = 64"
  by (simp add: b64_alphabet_def py_bytes_def)

lemma distinct_b64_alphabet: "distinct b64_alphabet"
  by (simp add: b64_alphabet_def py_bytes_def)

lemma b64_char_in_alphabet: "b64_char n \<in> set b64_alphabet"
  by (simp add: b64_char_def length_b64_alphabet)

lemma b64_alphabet_plain:
  "c \<in> set b64_alphabet \<Longrightarrow>
     unat c < 0x80 \<and> c \<noteq> 0x3D \<and> c \<noteq> 0x2D \<and> c \<noteq> 0x5F \<and> c \<noteq> 0x7E"
  by (auto simp: b64_alphabet_def py_bytes_def)

lemma set_b64encode: "set (b64encode data) \<subseteq> insert 0x3D (set b64_alphabet)"
  by (induction data rule: b64encode.induct) (auto simp: b64_char_in_alphabet)

lemma b64_index_char: "n < 64 \<Longrightarrow> b64_index (b64_char n) = n"
proof -
  assume n: "n < 64"
  have "takeWhile (\<lambda>x. x \<noteq> b64_alphabet ! n) b64_alphabet = take n b64_alphabet"
  proof (rule takeWhile_eq_take_P_nth)
    fix i assume "i < n" "i < length b64_alphabet"
    with n distinct_b64_alphabet show "b64_alphabet ! i \<noteq> b64_alphabet ! n"
      by (simp add: nth_eq_iff_index_eq length_b64_alphabet)
  next
    show "\<not> b64_alphabet ! n \<noteq> b64_alphabet ! n" by simp
  qed
  with n show ?thesis
    by (simp add: b64_index_def b64_char_def length_b64_alphabet)
qed

text \<open>
  The arithmetic of three octets and their four sextets: the sextets are below 64, and the
  octets are recovered from them.
\<close>

lemma sextet_first: "(A::nat) < 256 \<Longrightarrow> A div 4 < 64"
  by simp

lemma sextet_second_one: "(A::nat) mod 4 * 16 < 64"
proof -
  have "A mod 4 < 4" by simp
  then show ?thesis by linarith
qed

lemma sextet_second: "(B::nat) < 256 \<Longrightarrow> A mod 4 * 16 + B div 16 < 64"
proof -
  assume "B < 256"
  then have "B div 16 < 16" by simp
  moreover have "A mod 4 < 4" by simp
  ultimately show ?thesis by linarith
qed

lemma sextet_third_two: "(B::nat) mod 16 * 4 < 64"
proof -
  have "B mod 16 < 16" by simp
  then show ?thesis by linarith
qed

lemma sextet_third: "(C::nat) < 256 \<Longrightarrow> B mod 16 * 4 + C div 64 < 64"
proof -
  assume "C < 256"
  then have "C div 64 < 4" by simp
  moreover have "B mod 16 < 16" by simp
  ultimately show ?thesis by linarith
qed

lemma octet_first_one: "(A::nat) div 4 * 4 + (A mod 4 * 16) div 16 = A"
  by simp

lemma octet_first:
  "(B::nat) < 256 \<Longrightarrow> A div 4 * 4 + (A mod 4 * 16 + B div 16) div 16 = A"
proof -
  assume "B < 256"
  then have "B div 16 < 16" by simp
  then have "(A mod 4 * 16 + B div 16) div 16 = A mod 4" by simp
  then show ?thesis by simp
qed

lemma octet_second_two:
  "(B::nat) < 256 \<Longrightarrow>
     (A mod 4 * 16 + B div 16) mod 16 * 16 + (B mod 16 * 4) div 4 = B"
proof -
  assume "B < 256"
  then have "B div 16 < 16" by simp
  then have "(A mod 4 * 16 + B div 16) mod 16 = B div 16" by simp
  then show ?thesis by simp
qed

lemma octet_second:
  "(B::nat) < 256 \<Longrightarrow> (C::nat) < 256 \<Longrightarrow>
     (A mod 4 * 16 + B div 16) mod 16 * 16 + (B mod 16 * 4 + C div 64) div 4 = B"
proof -
  assume "B < 256" "C < 256"
  then have "B div 16 < 16" "C div 64 < 4" by simp_all
  then have "(A mod 4 * 16 + B div 16) mod 16 = B div 16"
    "(B mod 16 * 4 + C div 64) div 4 = B mod 16"
    by simp_all
  then show ?thesis by simp
qed

lemma octet_third:
  "(C::nat) < 256 \<Longrightarrow> (B mod 16 * 4 + C div 64) mod 4 * 64 + C mod 64 = C"
proof -
  assume "C < 256"
  then have "C div 64 < 4" by simp
  then have "(B mod 16 * 4 + C div 64) mod 4 = C div 64" by simp
  then show ?thesis by simp
qed

lemma unat_byte: "unat (a :: byte) < 256"
  using unsigned_less [of a, where 'a = nat] by simp

lemma b64_char_not_pad: "b64_char n \<noteq> 0x3D"
  using b64_alphabet_plain [OF b64_char_in_alphabet] by blast

lemma word_of_nat_unat_byte: "of_nat (unat (a :: byte)) = a"
  by simp

lemma b64decode_b64encode: "b64decode (b64encode data) = data"
proof (induction data rule: b64encode.induct)
  case 1
  show ?case by simp
next
  case (2 a)
  have i: "b64_index (b64_char (unat a div 4)) = unat a div 4"
    "b64_index (b64_char (unat a mod 4 * 16)) = unat a mod 4 * 16"
    by (simp_all only: b64_index_char sextet_first sextet_second_one unat_byte)
  show ?case
    by (simp only: b64encode.simps b64decode.simps i simp_thms if_True octet_first_one
        word_of_nat_unat_byte)
next
  case (3 a b)
  have i: "b64_index (b64_char (unat a div 4)) = unat a div 4"
    "b64_index (b64_char (unat a mod 4 * 16 + unat b div 16)) = unat a mod 4 * 16 + unat b div 16"
    "b64_index (b64_char (unat b mod 16 * 4)) = unat b mod 16 * 4"
    by (simp_all only: b64_index_char sextet_first sextet_second sextet_third_two unat_byte)
  show ?case
    by (simp only: b64encode.simps b64decode.simps i simp_thms if_True if_False b64_char_not_pad
        octet_first [OF unat_byte] octet_second_two [OF unat_byte] word_of_nat_unat_byte)
next
  case (4 a b c rest)
  have i: "b64_index (b64_char (unat a div 4)) = unat a div 4"
    "b64_index (b64_char (unat a mod 4 * 16 + unat b div 16)) = unat a mod 4 * 16 + unat b div 16"
    "b64_index (b64_char (unat b mod 16 * 4 + unat c div 64)) = unat b mod 16 * 4 + unat c div 64"
    "b64_index (b64_char (unat c mod 64)) = unat c mod 64"
    by (simp_all only: b64_index_char sextet_first sextet_second sextet_third unat_byte
        mod_less_divisor zero_less_numeral)
  show ?case
    by (simp only: b64encode.simps b64decode.simps append_Cons append_Nil i simp_thms if_False
        b64_char_not_pad octet_first [OF unat_byte] octet_second [OF unat_byte unat_byte]
        octet_third [OF unat_byte]
        word_of_nat_unat_byte "4.IH")
qed

lemma Encode_nth:
  "i < length (b64encode data) \<Longrightarrow>
     Encode data ! i =
       (if b64encode data ! i = 0x2B then 0x2D
        else if b64encode data ! i = 0x3D then 0x5F
        else if b64encode data ! i = 0x2F then 0x7E
        else b64encode data ! i)"
  by (simp add: Encode_def bytes_replace_def)

lemma length_Encode: "length (Encode data) = length (b64encode data)"
  by (simp add: Encode_def bytes_replace_def)

lemma b64encode_plain:
  "c \<in> set (b64encode data) \<Longrightarrow> unat c < 0x80 \<and> c \<noteq> 0x2D \<and> c \<noteq> 0x5F \<and> c \<noteq> 0x7E"
  using set_b64encode [of data] b64_alphabet_plain [of c] by auto

lemma Encode_ascii: "c \<in> set (Encode data) \<Longrightarrow> unat c < 0x80"
  using b64encode_plain [of _ data] by (auto simp: Encode_def bytes_replace_def)

lemma Decode_Encode: "Decode (Encode data) = data"
proof -
  have "bytes_replace 0x2D 0x2B (bytes_replace 0x5F 0x3D (bytes_replace 0x7E 0x2F
          (Encode data))) = map (\<lambda>c. c) (b64encode data)"
    unfolding Encode_def bytes_replace_def map_map
    by (rule map_cong [OF refl]) (use b64encode_plain [of _ data] in auto)
  then show ?thesis by (simp add: Decode_def b64decode_b64encode)
qed

subsection \<open>What the method returns, and when its policy step fails\<close>

lemma generate_signed_cookies_Inr:
  "generate_signed_cookies self url expire_at = Inr v \<Longrightarrow>
     \<exists>policy policy_64 signature signature_64.
        policy_step self url expire_at = Inr policy \<and>
        encode_step self policy = Inr policy_64 \<and>
        rsa_signer self policy = Inr signature \<and>
        encode_step self signature = Inr signature_64 \<and>
        v = PyDict
              [(py_str ''CloudFront-Policy'', policy_64),
               (py_str ''CloudFront-Signature'', signature_64),
               (py_str ''CloudFront-Key-Pair-Id'', key_id self)]"
  by (auto simp: generate_signed_cookies_steps split: sum.splits)



text \<open>
  The policy step has no check of its own: it fails exactly when the library's
  \<open>build_policy\<close> fails or the policy text has no UTF-8 encoding.
\<close>

lemma policy_step_Inl:
  fixes self :: "('t, 'e) CloudFrontUtil"
  shows "(policy_step self url expire_at = Inl e) =
     (build_policy (cf_signer self) url expire_at = Inl e \<or>
      (\<exists>policy_str. build_policy (cf_signer self) url expire_at = Inr policy_str \<and>
         str_encode_utf8 policy_str = (Inl e :: 'e exn + bytes)))"
  by (auto simp: policy_step_def split: sum.splits)

subsection \<open>The policy text and the library objects\<close>

declare dec_digits.simps [simp del]

lemma dec_digits_small: "n < 10 \<Longrightarrow> dec_digits n = [48 + n]"
  by (subst dec_digits.simps) simp

lemma dec_digits_large:
  "10 \<le> n \<Longrightarrow> dec_digits n = dec_digits (n div 10) @ [48 + n mod 10]"
  by (subst dec_digits.simps) simp

lemma dec_digits_ascii: "c \<in> set (dec_digits n) \<Longrightarrow> 48 \<le> c \<and> c \<le> 57"
proof (induction n arbitrary: c rule: dec_digits.induct)
  case (1 n)
  show ?case
  proof (cases "n < 10")
    case True
    with "1.prems" show ?thesis by (simp add: dec_digits_small)
  next
    case False
    have "n mod 10 < 10" by simp
    with False "1.prems" "1.IH" [of c] show ?thesis
      by (auto simp: dec_digits_large)
  qed
qed

lemma int_str_ascii: "c \<in> set (int_str i) \<Longrightarrow> c < 0x80"
  using dec_digits_ascii [of c] by (fastforce simp: int_str_def split: if_splits)

lemma hex_digit_ascii: "d < 16 \<Longrightarrow> hex_digit d < 0x80"
  by (simp add: hex_digit_def)

lemma u_escape_ascii: "c \<in> set (u_escape n) \<Longrightarrow> c < 0x80"
  by (auto simp: u_escape_def hex_digit_def)

lemma json_escape_ascii: "c \<in> set (json_escape x) \<Longrightarrow> c < 0x80"
  using u_escape_ascii [of c] by (auto simp: json_escape_def split: if_splits)

lemma json_string_ascii: "c \<in> set (json_string s) \<Longrightarrow> c < 0x80"
  using json_escape_ascii [of c] by (auto simp: json_string_def)

lemma BuildPolicy_ascii:
  "BuildPolicy pb resource t = Inr s \<Longrightarrow> \<forall>c \<in> set s. c < 0x80"
  using json_string_ascii int_str_ascii
  by (auto simp: BuildPolicy_def py_str_def split: option.splits)

lemma cloudfront_init:
  "key_id (init (cloudfront_library pb prims) key kid) = kid"
  "rsa_signer (init (cloudfront_library pb prims) key kid) =
     (\<lambda>message. Sign prims message key (py_str ''SHA-1''))"
  "build_policy (cf_signer (init (cloudfront_library pb prims) key kid)) = BuildPolicy pb"
  "url_b64encode (cf_signer (init (cloudfront_library pb prims) key kid)) =
     (\<lambda>data. Inr (Encode data))"
  "cf_generate_presigned_url (cf_signer (init (cloudfront_library pb prims) key kid)) =
     IssueSignedURL pb kid (\<lambda>message. Sign prims message key (py_str ''SHA-1''))"
  by (simp_all add: init_def cloudfront_library_def)

lemma cloudfront_encode_step:
  "encode_step (init (cloudfront_library pb prims) key kid) data = Inr (map unat (Encode data))"
  using Encode_ascii [of _ data]
  by (simp add: encode_step_def cloudfront_init bytes_decode_utf8_ascii)

lemma cloudfront_policy_step:
  "policy_step (init (cloudfront_library pb prims) key kid) url t =
     (case BuildPolicy pb url t of Inl e \<Rightarrow> Inl e | Inr s \<Rightarrow> Inr (map of_nat s))"
  using BuildPolicy_ascii [of pb url t]
  by (simp add: policy_step_def cloudfront_init str_encode_utf8_ascii split: sum.splits)

lemma Sign_sha1:
  "Sign prims message key (py_str ''SHA-1'') = pkcs1_v15_sign prims key (sha1 prims message)"
  by (simp add: Sign_def)

subsection \<open>The method on the small instance\<close>

lemma of_nat_unat_bytes: "map of_nat (map unat (bs :: bytes)) = bs"
  by (simp add: map_idI)

lemma test_policy_step:
  "\<exists>policy. policy_step (init test_library key kid) (py_str ''https://cdn.example.com/*'') t
     = Inr policy"
  by (simp add: test_library_def cloudfront_policy_step BuildPolicy_def test_builder_def
      py_str_def)

lemma test_rsa_signer:
  "rsa_signer (init test_library key_bits kid) message =
     (if key_bits < 368 then Inl (Raised InvalidKey)
      else Inr (digest_octets (word_rcat message)))"
  by (simp add: test_library_def cloudfront_init Sign_sha1 test_primitives_def)

lemma test_encode_step:
  "encode_step (init test_library key_bits kid) data = Inr (map unat (Encode data))"
  by (simp add: test_library_def cloudfront_encode_step)

lemma test_generate_signed_cookies:
  "\<exists>policy.
     policy_step (init test_library 2048 kid) (py_str ''https://cdn.example.com/*'') t
       = Inr policy \<and>
     generate_signed_cookies (init test_library 2048 kid) (py_str ''https://cdn.example.com/*'') t
       = Inr (PyDict
           [(py_str ''CloudFront-Policy'', map unat (Encode policy)),
            (py_str ''CloudFront-Signature'',
             map unat (Encode (digest_octets (word_rcat policy)))),
            (py_str ''CloudFront-Key-Pair-Id'', kid)])"
proof -
  obtain policy where
    p: "policy_step (init test_library 2048 kid) (py_str ''https://cdn.example.com/*'') t
          = Inr policy"
    using test_policy_step by blast
  have "key_id (init test_library 2048 kid) = kid"
    by (simp add: test_library_def cloudfront_init)
  with p show ?thesis
    by (simp add: generate_signed_cookies_steps test_encode_step test_rsa_signer)
qed

lemma dec_digits_2000000000: "dec_digits 2000000000 = py_str ''2000000000''"
  by (simp add: dec_digits_large dec_digits_small py_str_def)

lemma int_str_2000000000: "int_str 2000000000 = py_str ''2000000000''"
  by (simp add: int_str_def dec_digits_2000000000)

lemma test_BuildPolicy:
  \<open>BuildPolicy test_builder (py_str ''https://cdn.example.com/*'') (2000000000, us) =
     Inr (py_str ''{"Statement":[{"Resource":"https://cdn.example.com/*","Condition":{"DateLessThan":{"AWS:EpochTime":2000000000}}}]}'')\<close>
  by (simp add: BuildPolicy_def test_builder_def int_str_def dec_digits_2000000000
      json_string_def json_escape_def py_str_def)

lemma sign_params_Encode:
  "signer policy = Inr signature \<Longrightarrow>
     sign_params kid signer policy =
       Inr [py_str ''Signature='' @ map unat (Encode signature), py_str ''Key-Pair-Id='' @ kid]"
  using Encode_ascii [of _ signature]
  by (simp add: sign_params_def bytes_decode_utf8_ascii)

text \<open>
  The builder of the small instance rejects nothing: the empty resource yields the cookies
  of a policy with an empty resource.
\<close>

lemma test_empty_resource:
  \<open>generate_signed_cookies (init test_library 2048 (py_str ''K3M7WLN23IL48K'')) []
     (2000000000, 0) =
   Inr (PyDict
     [(py_str ''CloudFront-Policy'',
       map unat (Encode (py_bytes ''{"Statement":[{"Resource":"","Condition":{"DateLessThan":{"AWS:EpochTime":2000000000}}}]}''))),
      (py_str ''CloudFront-Signature'',
       map unat (Encode (digest_octets (word_rcat (py_bytes ''{"Statement":[{"Resource":"","Condition":{"DateLessThan":{"AWS:EpochTime":2000000000}}}]}''))))),
      (py_str ''CloudFront-Key-Pair-Id'', py_str ''K3M7WLN23IL48K'')])\<close>
proof -
  have "policy_step (init test_library 2048 (py_str ''K3M7WLN23IL48K'')) [] (2000000000, 0) =
     Inr (py_bytes ''{\"Statement\":[{\"Resource\":\"\",\"Condition\":{\"DateLessThan\":{\"AWS:EpochTime\":2000000000}}}]}'')"
    by (simp add: test_library_def cloudfront_policy_step BuildPolicy_def test_builder_def
        json_string_def int_str_2000000000 py_str_def py_bytes_def)
  moreover have "key_id (init test_library 2048 (py_str ''K3M7WLN23IL48K'')) =
      py_str ''K3M7WLN23IL48K''"
    by (simp add: test_library_def cloudfront_init)
  ultimately show ?thesis
    by (simp add: generate_signed_cookies_steps test_encode_step test_rsa_signer)
qed

subsection \<open>The signer as a composition\<close>





section \<open>The claims\<close>

subsection \<open>The signed cookies\<close>

text \<open>
  Claim C1, as amended. \<open>generate_signed_cookies\<close> returns a value exactly when the
  policy step, the encoding of the policy, the signer and the encoding of the signature all
  succeed, and the value is then a mapping with exactly three entries, under exactly the
  keys \<open>CloudFront-Policy\<close>, \<open>CloudFront-Signature\<close> and \<open>CloudFront-Key-Pair-Id\<close>:
  the encoded policy, the encoded signature, and the key identifier as it was passed in.
\<close>

theorem generate_signed_cookies_three_entries:
  "(generate_signed_cookies self url expire_at = Inr v) =
     (\<exists>policy policy_64 signature signature_64 cookies.
        policy_step self url expire_at = Inr policy \<and>
        encode_step self policy = Inr policy_64 \<and>
        rsa_signer self policy = Inr signature \<and>
        encode_step self signature = Inr signature_64 \<and>
        v = PyDict cookies \<and>
        cookies =
          [(py_str ''CloudFront-Policy'', policy_64),
           (py_str ''CloudFront-Signature'', signature_64),
           (py_str ''CloudFront-Key-Pair-Id'', key_id self)] \<and>
        length cookies = 3 \<and>
        dom (map_of cookies) =
          {py_str ''CloudFront-Policy'', py_str ''CloudFront-Signature'',
           py_str ''CloudFront-Key-Pair-Id''} \<and>
        card (dom (map_of cookies)) = 3)"
proof -
  have names: "card {py_str ''CloudFront-Policy'', py_str ''CloudFront-Signature'',
                    py_str ''CloudFront-Key-Pair-Id''} = 3"
    using cookie_names_distinct by (simp add: card_insert_if)
  have dom: "dom (map_of [(a, x), (b, y), (c, z)]) = {a, b, c}" for a b c :: str and x y z :: str
    by (auto split: if_splits)
  show ?thesis
    unfolding generate_signed_cookies_steps
    by (auto simp only: names dom split: sum.splits) (simp_all add: names dom)
qed

text \<open>
  The theorem of claim C1 at work: a 2048-bit key, the resource
  \<open>https://cdn.example.com/*\<close> and the expiry 2000000000.
\<close>

theorem generate_signed_cookies_three_entries_witness:
  "\<exists>cookies.
     generate_signed_cookies (init test_library 2048 (py_str ''K3M7WLN23IL48K''))
       (py_str ''https://cdn.example.com/*'') (2000000000, 0) = Inr (PyDict cookies) \<and>
     map fst cookies =
       [py_str ''CloudFront-Policy'', py_str ''CloudFront-Signature'',
        py_str ''CloudFront-Key-Pair-Id''] \<and>
     map_of cookies (py_str ''CloudFront-Key-Pair-Id'') = Some (py_str ''K3M7WLN23IL48K'')"
proof -
  let ?self = "init test_library 2048 (py_str ''K3M7WLN23IL48K'')"
  obtain policy where
    p: "policy_step ?self (py_str ''https://cdn.example.com/*'') (2000000000, 0) = Inr policy"
    using test_policy_step by blast
  have e: "encode_step ?self data = Inr (map unat (Encode data))" for data
    by (simp add: test_library_def cloudfront_encode_step)
  have s: "rsa_signer ?self policy = Inr (digest_octets (word_rcat policy))"
    by (simp add: test_rsa_signer)
  have k: "key_id ?self = py_str ''K3M7WLN23IL48K''"
    by (simp add: test_library_def cloudfront_init)
  show ?thesis
    using generate_signed_cookies_three_entries
      [of ?self "py_str ''https://cdn.example.com/*''" "(2000000000, 0)"
        "PyDict [(py_str ''CloudFront-Policy'', map unat (Encode policy)),
                 (py_str ''CloudFront-Signature'',
                  map unat (Encode (digest_octets (word_rcat policy)))),
                 (py_str ''CloudFront-Key-Pair-Id'', py_str ''K3M7WLN23IL48K'')]"]
      p e s k cookie_names_distinct
    by (auto simp: card_insert_if)
qed

text \<open>
  Claim C1 as the specification words it, "regardless of input", fails: with a key too
  short for the padded digest the signer raises, the exception leaves the method, and no
  mapping is returned.
\<close>

theorem generate_signed_cookies_undersized_key:
  "generate_signed_cookies (init test_library 256 (py_str ''K3M7WLN23IL48K''))
     (py_str ''https://cdn.example.com/*'') (2000000000, 0) = Inl (Raised InvalidKey)"
proof -
  let ?self = "init test_library 256 (py_str ''K3M7WLN23IL48K'')"
  obtain policy where
    p: "policy_step ?self (py_str ''https://cdn.example.com/*'') (2000000000, 0) = Inr policy"
    using test_policy_step by blast
  have e: "encode_step ?self policy = Inr (map unat (Encode policy))"
    by (simp add: test_library_def cloudfront_encode_step)
  have s: "rsa_signer ?self policy = Inl (Raised InvalidKey)"
    by (simp add: test_rsa_signer)
  show ?thesis
    by (simp add: generate_signed_cookies_steps p e s)
qed

text \<open>
  Claim C2. When \<open>generate_signed_cookies\<close> returns its cookies, the signer has been
  applied to the UTF-8 octets of the policy text, before any encoding; the two cookie values
  are the encoder's results for these octets and for the signature, each on its own; and
  whatever decoder inverts the encoder reads from the policy cookie the very octets that
  were signed.
\<close>

theorem signature_over_policy_bytes:
  fixes self :: "('t, 'e) CloudFrontUtil"
  assumes "generate_signed_cookies self url expire_at = Inr (PyDict cookies)"
    and "\<And>data s. encode_step self data = Inr s \<Longrightarrow> decode s = data"
  shows "\<exists>policy_str policy signature policy_64 signature_64.
           build_policy (cf_signer self) url expire_at = Inr policy_str \<and>
           str_encode_utf8 policy_str = (Inr policy :: 'e exn + bytes) \<and>
           rsa_signer self policy = Inr signature \<and>
           encode_step self policy = Inr policy_64 \<and>
           encode_step self signature = Inr signature_64 \<and>
           map_of cookies (py_str ''CloudFront-Policy'') = Some policy_64 \<and>
           map_of cookies (py_str ''CloudFront-Signature'') = Some signature_64 \<and>
           decode policy_64 = policy \<and>
           decode signature_64 = signature"
proof -
  from generate_signed_cookies_Inr [OF assms(1)] obtain policy policy_64 signature signature_64
    where steps: "policy_step self url expire_at = Inr policy"
      "encode_step self policy = Inr policy_64"
      "rsa_signer self policy = Inr signature"
      "encode_step self signature = Inr signature_64"
      "cookies =
              [(py_str ''CloudFront-Policy'', policy_64),
               (py_str ''CloudFront-Signature'', signature_64),
               (py_str ''CloudFront-Key-Pair-Id'', key_id self)]"
    by auto
  from steps(1) obtain policy_str where
    built: "build_policy (cf_signer self) url expire_at = Inr policy_str"
      "str_encode_utf8 policy_str = (Inr policy :: 'e exn + bytes)"
    by (auto simp: policy_step_def split: sum.splits)
  from steps(5) cookie_names_distinct
  have "map_of cookies (py_str ''CloudFront-Policy'') = Some policy_64"
    "map_of cookies (py_str ''CloudFront-Signature'') = Some signature_64"
    by auto
  moreover have "decode policy_64 = policy" "decode signature_64 = signature"
    by (rule assms(2) [OF steps(2)], rule assms(2) [OF steps(4)])
  ultimately show ?thesis
    using built steps(2,3,4) by (intro exI conjI)
qed

text \<open>
  The theorem of claim C2 on the small instance, with the base64 decoder of the canonical
  encoder.
\<close>

theorem signature_over_policy_bytes_witness:
  "\<exists>cookies policy policy_64.
     generate_signed_cookies (init test_library 2048 (py_str ''K3M7WLN23IL48K''))
       (py_str ''https://cdn.example.com/*'') (2000000000, 0) = Inr (PyDict cookies) \<and>
     map_of cookies (py_str ''CloudFront-Policy'') = Some policy_64 \<and>
     Decode (map of_nat policy_64) = policy \<and>
     rsa_signer (init test_library 2048 (py_str ''K3M7WLN23IL48K'')) policy
       = Inr (digest_octets (word_rcat policy))"
proof -
  let ?self = "init test_library 2048 (py_str ''K3M7WLN23IL48K'')"
  obtain cookies where
    c: "generate_signed_cookies ?self (py_str ''https://cdn.example.com/*'') (2000000000, 0)
          = Inr (PyDict cookies)"
    using test_generate_signed_cookies by blast
  have d: "Decode (map of_nat s) = data" if "encode_step ?self data = Inr s" for data s
  proof -
    from that have "s = map unat (Encode data)" by (simp add: test_encode_step)
    then show ?thesis by (simp only: of_nat_unat_bytes Decode_Encode)
  qed
  from signature_over_policy_bytes [OF c d] c show ?thesis
    by (auto simp: test_rsa_signer)
qed



subsection \<open>Failures\<close>



subsection \<open>The canonical encoder\<close>

text \<open>
  Claim C3. The output of the canonical encoder contains none of \<open>+\<close>, \<open>=\<close> and
  \<open>/\<close>; it is as long as the standard base64 encoding of the same data; at every
  position it has \<open>-\<close>, \<open>_\<close> or \<open>~\<close> exactly where the base64 encoding has
  \<open>+\<close>, \<open>=\<close> or \<open>/\<close>, and the character of the base64 encoding everywhere else.
\<close>

theorem Encode_alphabet:
  "0x2B \<notin> set (Encode data) \<and> 0x3D \<notin> set (Encode data) \<and> 0x2F \<notin> set (Encode data) \<and>
   length (Encode data) = length (b64encode data) \<and>
   (\<forall>i < length (Encode data).
      (Encode data ! i = 0x2D \<longleftrightarrow> b64encode data ! i = 0x2B) \<and>
      (Encode data ! i = 0x5F \<longleftrightarrow> b64encode data ! i = 0x3D) \<and>
      (Encode data ! i = 0x7E \<longleftrightarrow> b64encode data ! i = 0x2F) \<and>
      (b64encode data ! i \<notin> {0x2B, 0x3D, 0x2F} \<longrightarrow> Encode data ! i = b64encode data ! i))"
proof -
  have "0x2B \<notin> set (Encode data)" "0x3D \<notin> set (Encode data)" "0x2F \<notin> set (Encode data)"
    by (auto simp: Encode_def bytes_replace_def)
  moreover have "(Encode data ! i = 0x2D \<longleftrightarrow> b64encode data ! i = 0x2B) \<and>
      (Encode data ! i = 0x5F \<longleftrightarrow> b64encode data ! i = 0x3D) \<and>
      (Encode data ! i = 0x7E \<longleftrightarrow> b64encode data ! i = 0x2F) \<and>
      (b64encode data ! i \<notin> {0x2B, 0x3D, 0x2F} \<longrightarrow> Encode data ! i = b64encode data ! i)"
    if "i < length (Encode data)" for i
  proof -
    from that have i: "i < length (b64encode data)" by (simp add: length_Encode)
    then have "b64encode data ! i \<in> set (b64encode data)" by simp
    from b64encode_plain [OF this] show ?thesis
      by (simp add: Encode_nth [OF i])
  qed
  ultimately show ?thesis by (simp add: length_Encode)
qed

text \<open>
  The theorem of claim C3 on two octets whose encoding shows all three substitutions and
  one character that stays.
\<close>

theorem Encode_alphabet_witness:
  "b64encode [0xFB, 0xFF] = py_bytes ''+/8='' \<and>
   Encode [0xFB, 0xFF] = py_bytes ''-~8_'' \<and>
   (0::nat) < length (Encode [0xFB, 0xFF]) \<and>
   Encode [0xFB, 0xFF] ! 0 = 0x2D \<and> b64encode [0xFB, 0xFF] ! 0 = 0x2B \<and>
   0x2B \<notin> set (Encode [0xFB, 0xFF])"
proof -
  have b: "b64encode [0xFB, 0xFF] = py_bytes ''+/8=''"
    by (simp add: b64_char_def b64_alphabet_def py_bytes_def)
  then have e: "Encode [0xFB, 0xFF] = py_bytes ''-~8_''"
    by (simp add: Encode_def bytes_replace_def py_bytes_def)
  from Encode_alphabet [of "[0xFB, 0xFF]"] b e show ?thesis
    by (simp add: py_bytes_def)
qed

subsection \<open>The signer\<close>




subsection \<open>The signed URL\<close>

text \<open>
  Claim C8. \<open>generate_presigned_url\<close> asks the library for the canned form: when the
  policy is built and signed, the result is the URL it was given, followed by \<open>?\<close> (by
  \<open>&\<close> when the URL has a query already) and three parameters: the expiry in epoch
  seconds, the encoded signature and the raw key identifier. No policy parameter is
  appended.
\<close>

theorem generate_presigned_url_canned:
  assumes "BuildPolicy pb url expire_at = Inr canned"
    and "pkcs1_v15_sign prims key (sha1 prims (map of_nat canned)) = Inr signature"
  shows "generate_presigned_url (init (cloudfront_library pb prims) key kid) url expire_at =
           Inr (build_url url
                  [py_str ''Expires='' @ int_str (epoch_time pb expire_at),
                   py_str ''Signature='' @ map unat (Encode signature),
                   py_str ''Key-Pair-Id='' @ kid]) \<and>
         build_url url
           [py_str ''Expires='' @ int_str (epoch_time pb expire_at),
            py_str ''Signature='' @ map unat (Encode signature),
            py_str ''Key-Pair-Id='' @ kid] =
           url @ (if 0x3F \<in> set url then [0x26] else [0x3F])
           @ py_str ''Expires='' @ int_str (epoch_time pb expire_at)
           @ py_str ''&Signature='' @ map unat (Encode signature)
           @ py_str ''&Key-Pair-Id='' @ kid"
proof -
  from BuildPolicy_ascii [OF assms(1)]
  have enc: "str_encode_utf8 canned = Inr (map of_nat canned)"
    by (rule str_encode_utf8_ascii)
  have "sign_params kid (\<lambda>message. Sign prims message key (py_str ''SHA-1''))
          (map of_nat canned) =
        Inr [py_str ''Signature='' @ map unat (Encode signature), py_str ''Key-Pair-Id='' @ kid]"
    by (rule sign_params_Encode) (simp add: Sign_sha1 assms(2))
  then have "generate_presigned_url (init (cloudfront_library pb prims) key kid) url expire_at =
           Inr (build_url url
                  [py_str ''Expires='' @ int_str (epoch_time pb expire_at),
                   py_str ''Signature='' @ map unat (Encode signature),
                   py_str ''Key-Pair-Id='' @ kid])"
    by (simp add: generate_presigned_url_def cloudfront_init IssueSignedURL_def assms(1) enc)
  moreover have "build_url url
           [py_str ''Expires='' @ int_str (epoch_time pb expire_at),
            py_str ''Signature='' @ map unat (Encode signature),
            py_str ''Key-Pair-Id='' @ kid] =
           url @ (if 0x3F \<in> set url then [0x26] else [0x3F])
           @ py_str ''Expires='' @ int_str (epoch_time pb expire_at)
           @ py_str ''&Signature='' @ map unat (Encode signature)
           @ py_str ''&Key-Pair-Id='' @ kid"
    by (simp add: build_url_def py_str_def)
  ultimately show ?thesis by (rule conjI)
qed

text \<open>The theorem of claim C8 on the small instance.\<close>

theorem generate_presigned_url_canned_witness:
  "\<exists>canned signature.
     BuildPolicy test_builder (py_str ''https://cdn.example.com/index.html'') (2000000000, 0)
       = Inr canned \<and>
     pkcs1_v15_sign test_primitives 2048 (sha1 test_primitives (map of_nat canned))
       = Inr signature \<and>
     generate_presigned_url (init test_library 2048 (py_str ''K3M7WLN23IL48K''))
       (py_str ''https://cdn.example.com/index.html'') (2000000000, 0) =
       Inr (py_str ''https://cdn.example.com/index.html?Expires=2000000000&Signature=''
            @ map unat (Encode signature) @ py_str ''&Key-Pair-Id=K3M7WLN23IL48K'')"
proof -
  obtain canned where
    c: "BuildPolicy test_builder (py_str ''https://cdn.example.com/index.html'')
          (2000000000, 0) = Inr canned"
    by (simp add: BuildPolicy_def test_builder_def py_str_def)
  have s: "pkcs1_v15_sign test_primitives 2048 (sha1 test_primitives (map of_nat canned)) =
           Inr (digest_octets (word_rcat (map of_nat canned :: bytes)))"
    by (simp add: test_primitives_def)
  have q: "0x3F \<notin> set (py_str ''https://cdn.example.com/index.html'')"
    by (simp add: py_str_def)
  from generate_presigned_url_canned [OF c s, of "py_str ''K3M7WLN23IL48K''"] c s q
  show ?thesis
    by (simp add: test_library_def test_builder_def int_str_def dec_digits_2000000000
        py_str_def)
qed

end
